theory Spec2Isabelle
  imports Main "HOL-Library.AList"
begin

section \<open>Python values shared by both programs\<close>

text \<open>
  A JSON entry that may be absent (or \<open>null\<close>) is a \<open>string option\<close>. \<open>py_str\<close> is what
  \<open>str(v)\<close> and an f-string produce for such an entry: the text itself, or \<open>None\<close>.
  \<open>falsy\<close> is Python's truth test \<open>not v\<close> on it.
\<close>

definition py_str :: "string option \<Rightarrow> string" where
  "py_str v = (case v of None \<Rightarrow> ''None'' | Some s \<Rightarrow> s)"

definition falsy :: "string option \<Rightarrow> bool" where
  "falsy v = (case v of None \<Rightarrow> True | Some s \<Rightarrow> s = [])"

text \<open>
  An entry of a dictionary that the program reads both as \<open>d[k]\<close> and as
  \<open>d.get(k)\<close>: the key is missing, or it is there with the value \<open>null\<close>
  (\<open>None\<close>), or it holds a value. \<open>d[k]\<close> raises \<open>KeyError\<close> on \<open>Missing\<close> only;
  \<open>entry_get\<close> is \<open>d.get(k)\<close>, and \<open>entry_of v\<close> is the entry made by storing the
  Python value \<open>v\<close> under the key.
\<close>

datatype 'a entry = Missing | Null | Val 'a

primrec entry_get :: "'a entry \<Rightarrow> 'a option" where
  "entry_get Missing = None"
| "entry_get Null = None"
| "entry_get (Val v) = Some v"

definition entry_of :: "'a option \<Rightarrow> 'a entry" where
  "entry_of v = (case v of None \<Rightarrow> Null | Some x \<Rightarrow> Val x)"

text \<open>Decimal rendering of a status code inside an f-string.\<close>

fun str_nat :: "nat \<Rightarrow> string" where
  "str_nat n = (if n < 10 then [''0123456789'' ! n]
                else str_nat (n div 10) @ [''0123456789'' ! (n mod 10)])"

declare str_nat.simps [simp del]

text \<open>
  A call of the \<open>requests\<close> library either raises (the text of the exception) or gives a
  response with \<open>status_code\<close>, \<open>text\<close> and a body. The body is \<open>Inr v\<close> when
  \<open>response.json()\<close> gives a value of the shape the caller reads, and \<open>Inl msg\<close> when
  reading it raises \<open>msg\<close>.
\<close>

datatype 'a http = Raises string | Response nat string "string + 'a"

text \<open>
  \<open>s.replace(old, new)\<close> for a non-empty \<open>old\<close>: every occurrence, left to right,
  without overlap. The program calls it with the literals \<open>"Bearer "\<close>, \<open>" "\<close> and
  \<open>"/"\<close> only.
\<close>

function str_replace :: "string \<Rightarrow> string \<Rightarrow> string \<Rightarrow> string" where
  "str_replace old new [] = []"
| "str_replace old new (c # cs) =
     (if old \<noteq> [] \<and> take (length old) (c # cs) = old
      then new @ str_replace old new (drop (length old) (c # cs))
      else c # str_replace old new cs)"
  by pat_completeness auto
termination
  by (relation "measure (\<lambda>(old, new, s). length s)") auto

definition startswith :: "string \<Rightarrow> string \<Rightarrow> bool" where
  "startswith s p = (take (length p) s = p)"


section \<open>The login system (obliterator\_login/login\_system.py)\<close>

subsection \<open>Data\<close>

text \<open>
  The user dictionary kept in \<open>current_user\<close> and in the session: the entries the
  program writes in \<open>_try_user_table_auth\<close>; the identity service's user object is read
  through the same entries.
\<close>

record user_data =
  u_id :: "string option"
  u_email :: "string option"
  u_table_name :: "string option"
  u_created_at :: "string option"
  u_table_auth :: bool

text \<open>
  A row of the \<open>Users\<close> table, as \<open>user.get(...)\<close> reads it. The program uses the
  \<open>id\<close> entry only through \<open>str(...)\<close> and an f-string, so \<open>r_id\<close> holds that
  rendering (\<open>None\<close> for an absent or \<open>null\<close> id).
\<close>

record user_row =
  r_id :: "string option"
  r_email :: "string option"
  r_password :: "string option"
  r_created_at :: "string option"

text \<open>
  The JSON object answered by the password-grant endpoint; the same shape carries
  \<open>{"user": user_data}\<close>, the \<open>data\<close> of a table sign-in.
\<close>

record auth_json =
  j_access_token :: "string option"
  j_user :: "user_data entry"
  j_error_description :: "string option"

text \<open>
  The dictionary returned by \<open>sign_in\<close> and by the two strategies:
  \<open>{"success": True, "data": d, "method": m}\<close> or \<open>{"success": False, "error": e}\<close>.
\<close>

datatype sign_in_result = Success auth_json string | Failure string

primrec success :: "sign_in_result \<Rightarrow> bool" where
  "success (Success d m) = True"
| "success (Failure e) = False"

record auth_manager =
  current_user :: "user_data option"
  access_token :: "string option"

text \<open>The HTTP requests a sign-in can send, in the order they are sent.\<close>

datatype request = ProbeGet string | TokenPost string string | UsersGet string

text \<open>
  The network as one sign-in sees it: the answer to each request it can send.
  \<open>probe_get\<close> is \<open>None\<close> when the probe raises, else the status code.
\<close>

record network =
  probe_get :: "string \<Rightarrow> nat option"
  token_post :: "string \<Rightarrow> string \<Rightarrow> auth_json http"
  users_get :: "string \<Rightarrow> user_row list http"

subsection \<open>NetworkChecker\<close>

definition endpoints :: "string list" where
  "endpoints = [''https://www.google.com'', ''https://httpbin.org/get'',
                ''https://www.cloudflare.com'']"

fun probe_endpoints :: "network \<Rightarrow> string list \<Rightarrow> bool \<times> request list" where
  "probe_endpoints w [] = (False, [])"
| "probe_endpoints w (e # es) =
     (if probe_get w e = Some 200 then (True, [ProbeGet e])
      else (case probe_endpoints w es of (b, tr) \<Rightarrow> (b, ProbeGet e # tr)))"

definition check_internet_connection :: "network \<Rightarrow> bool \<times> request list" where
  "check_internet_connection w = probe_endpoints w endpoints"

subsection \<open>AuthManager\<close>

definition verify_password :: "string \<Rightarrow> string option \<Rightarrow> bool" where
  "verify_password provided_password stored_password =
     (if falsy stored_password then False
      else Some provided_password = stored_password)"

text \<open>
  \<open>_try_supabase_auth\<close>: the \<open>except\<close> clause turns every exception of the request or
  of \<open>response.json()\<close> into a failure dictionary.
\<close>

definition try_supabase_auth ::
  "network \<Rightarrow> string \<Rightarrow> string \<Rightarrow> auth_manager
     \<Rightarrow> sign_in_result \<times> auth_manager \<times> request list" where
  "try_supabase_auth w email password am =
     (case token_post w email password of
        Raises e \<Rightarrow> (Failure e, am, [TokenPost email password])
      | Response st txt body \<Rightarrow>
          (case body of
             Inl e \<Rightarrow> (Failure e, am, [TokenPost email password])
           | Inr result \<Rightarrow>
               if st = 200
               then (Success result ''supabase_auth'',
                     am\<lparr>access_token := j_access_token result,
                        current_user := entry_get (j_user result)\<rparr>,
                     [TokenPost email password])
               else (Failure (case j_error_description result of
                                None \<Rightarrow> ''Auth failed'' | Some d \<Rightarrow> d),
                     am, [TokenPost email password])))"

definition table_name :: string where
  "table_name = ''Users''"

definition try_user_table_auth ::
  "network \<Rightarrow> string \<Rightarrow> string \<Rightarrow> auth_manager
     \<Rightarrow> sign_in_result \<times> auth_manager \<times> request list" where
  "try_user_table_auth w email password am =
     (case users_get w email of
        Raises e \<Rightarrow> (Failure e, am, [UsersGet email])
      | Response st txt body \<Rightarrow>
          if st = 200 then
            (case body of
               Inl e \<Rightarrow> (Failure e, am, [UsersGet email])
             | Inr users \<Rightarrow>
                 (case users of
                    [] \<Rightarrow> (Failure ''User not found'', am, [UsersGet email])
                  | user # rest \<Rightarrow>
                      if verify_password password (r_password user) then
                        (let user_data = \<lparr>u_id = Some (py_str (r_id user)),
                                           u_email = r_email user,
                                           u_table_name = Some table_name,
                                           u_created_at = r_created_at user,
                                           u_table_auth = True\<rparr>
                         in (Success \<lparr>j_access_token = None, j_user = Val user_data,
                                      j_error_description = None\<rparr> ''user_table'',
                             am\<lparr>current_user := Some user_data,
                                access_token := Some (''table_auth_'' @ py_str (r_id user))\<rparr>,
                             [UsersGet email]))
                      else (Failure ''Invalid password'', am, [UsersGet email])))
          else (Failure (''Database query failed: '' @ str_nat st), am, [UsersGet email]))"

text \<open>
  \<open>sign_in\<close>. Both strategies return a dictionary on every path, so the \<open>except\<close>
  clause of \<open>sign_in\<close> (\<open>"Connection error: ..."\<close>) has no raising statement in its
  \<open>try\<close> block and is no branch of the model. The third component is the list of the
  requests sent by this call.
\<close>

definition sign_in ::
  "network \<Rightarrow> string \<Rightarrow> string \<Rightarrow> auth_manager
     \<Rightarrow> sign_in_result \<times> auth_manager \<times> request list" where
  "sign_in w email password am =
     (case check_internet_connection w of (ok, tr0) \<Rightarrow>
        if \<not> ok then (Failure ''No internet connection available'', am, tr0)
        else
          (case try_supabase_auth w email password am of (auth_result, am1, tr1) \<Rightarrow>
             if success auth_result then (auth_result, am1, tr0 @ tr1)
             else
               (case try_user_table_auth w email password am1 of (table_result, am2, tr2) \<Rightarrow>
                  if success table_result then (table_result, am2, tr0 @ tr1 @ tr2)
                  else (Failure ''Invalid email or password'', am2, tr0 @ tr1 @ tr2))))"

definition sign_out :: "auth_manager \<Rightarrow> auth_manager" where
  "sign_out am = am\<lparr>current_user := None, access_token := None\<rparr>"


subsection \<open>SessionManager\<close>

text \<open>
  A time is a naive local \<open>datetime\<close> counted in microseconds (the resolution of
  \<open>datetime.now()\<close>) since 1970-01-01T00:00:00. \<open>isoformat()\<close> followed by
  \<open>datetime.fromisoformat\<close> gives the same time back, so a stored time is \<open>Iso t\<close>;
  \<open>NotIso\<close> is a stored value that \<open>fromisoformat\<close> rejects.
\<close>

datatype iso_entry = Iso int | NotIso

text \<open>The session dictionary; an absent key is \<open>None\<close>, and \<open>{}\<close> has no key.\<close>

record session_info =
  s_user :: "user_data entry"
  s_timestamp :: "iso_entry option"
  s_remember_me :: "bool option"
  s_expires :: "iso_entry option"

definition empty_session :: session_info where
  "empty_session = \<lparr>s_user = Missing, s_timestamp = None, s_remember_me = None,
                     s_expires = None\<rparr>"

text \<open>
  The content of the session file: \<open>Encoded d\<close> is
  \<open>base64.b64encode(json.dumps(d).encode()).decode()\<close>, which \<open>load_session\<close> decodes
  back to \<open>d\<close>; \<open>Corrupt\<close> is any content whose decoding raises.
\<close>

datatype file_data = Encoded session_info | Corrupt

text \<open>
  The session manager with the file it owns: \<open>session_file\<close> is the content of
  \<open>.session_data\<close> (\<open>None\<close> when the path does not exist); the three flags say whether
  opening for reading, opening for writing and \<open>os.remove\<close> succeed.
\<close>

record session_manager =
  session_file :: "file_data option"
  readable :: bool
  writable :: bool
  removable :: bool
  session_data :: session_info

definition hours24 :: int where
  "hours24 = 24 * 60 * 60 * 1000000"

text \<open>
  \<open>now1\<close> and \<open>now2\<close> are the two readings of \<open>datetime.now()\<close> in \<open>save_session\<close>;
  \<open>user_data\<close> is the Python value passed by the caller, \<open>None\<close> included.
\<close>

definition save_session ::
  "int \<Rightarrow> int \<Rightarrow> user_data option \<Rightarrow> bool \<Rightarrow> session_manager \<Rightarrow> session_manager" where
  "save_session now1 now2 user_data remember_me sm =
     (let session_info = \<lparr>s_user = entry_of user_data,
                           s_timestamp = Some (Iso now1),
                           s_remember_me = Some remember_me,
                           s_expires = Some (Iso (now2 + hours24))\<rparr>
      in if writable sm
         then sm\<lparr>session_file := Some (Encoded session_info), session_data := session_info\<rparr>
         else sm)"

definition clear_session :: "session_manager \<Rightarrow> session_manager" where
  "clear_session sm =
     (if session_file sm \<noteq> None
      then (if removable sm then sm\<lparr>session_file := None, session_data := empty_session\<rparr> else sm)
      else sm\<lparr>session_data := empty_session\<rparr>)"

text \<open>
  \<open>datetime.fromisoformat(d.get("expires", "1970-01-01"))\<close>: \<open>None\<close> when it raises.
\<close>

definition parse_expires :: "session_info \<Rightarrow> int option" where
  "parse_expires d =
     (case s_expires d of
        None \<Rightarrow> Some 0
      | Some NotIso \<Rightarrow> None
      | Some (Iso t) \<Rightarrow> Some t)"

definition load_session ::
  "int \<Rightarrow> session_manager \<Rightarrow> session_info option \<times> session_manager" where
  "load_session now sm =
     (case session_file sm of
        None \<Rightarrow> (None, sm)
      | Some encrypted_data \<Rightarrow>
          if \<not> readable sm then (None, clear_session sm)
          else
            (case encrypted_data of
               Corrupt \<Rightarrow> (None, clear_session sm)
             | Encoded d \<Rightarrow>
                 (let sm1 = sm\<lparr>session_data := d\<rparr>
                  in case parse_expires d of
                       None \<Rightarrow> (None, clear_session sm1)
                     | Some expires \<Rightarrow>
                         if now > expires then (None, clear_session sm1)
                         else (Some d, sm1))))"

definition is_valid_session :: "int \<Rightarrow> session_manager \<Rightarrow> bool" where
  "is_valid_session now sm =
     (if session_data sm = empty_session then False
      else (case parse_expires (session_data sm) of
              None \<Rightarrow> False
            | Some expires \<Rightarrow> now < expires))"

subsection \<open>FullscreenLoginWindow: the session on sign-in and on start\<close>

text \<open>
  What \<open>_handle_login_result\<close> leaves on the screen: \<open>Login successful!\<close> with the
  \<open>user_data\<close> it hands on (\<open>None\<close> for a \<open>null\<close> user), or the error text.
  \<open>CallbackKeyError\<close> is the \<open>KeyError\<close> of \<open>result["data"]["user"]\<close>, raised only
  when the data has no \<open>user\<close> key.
\<close>

datatype login_outcome =
  LoginSuccessful "user_data option" | StatusError string | CallbackKeyError

definition handle_login_result ::
  "int \<Rightarrow> int \<Rightarrow> sign_in_result \<Rightarrow> bool \<Rightarrow> session_manager
     \<Rightarrow> login_outcome \<times> session_manager" where
  "handle_login_result now1 now2 result remember_var sm =
     (case result of
        Success d m \<Rightarrow>
          (case j_user d of
             Missing \<Rightarrow> (CallbackKeyError, sm)
           | Null \<Rightarrow>
               (LoginSuccessful None, save_session now1 now2 None remember_var sm)
           | Val u \<Rightarrow>
               (LoginSuccessful (Some u), save_session now1 now2 (Some u) remember_var sm))
      | Failure e \<Rightarrow> (StatusError e, sm))"

text \<open>
  \<open>check_existing_session\<close>: the user with whom the window resumes without a sign-in,
  if any. \<open>now1\<close> is the clock read by \<open>load_session\<close>, \<open>now2\<close> by \<open>is_valid_session\<close>.
\<close>

datatype resume = Resume "user_data option" | NoResume | ResumeKeyError

definition check_existing_session ::
  "int \<Rightarrow> int \<Rightarrow> session_manager \<Rightarrow> resume \<times> session_manager" where
  "check_existing_session now1 now2 sm =
     (case load_session now1 sm of
        (None, sm1) \<Rightarrow> (NoResume, sm1)
      | (Some d, sm1) \<Rightarrow>
          if d \<noteq> empty_session \<and> is_valid_session now2 sm1 then
            (if s_remember_me d = Some True
             then (case s_user d of
                     Missing \<Rightarrow> (ResumeKeyError, sm1)
                   | Null \<Rightarrow> (Resume None, sm1)
                   | Val u \<Rightarrow> (Resume (Some u), sm1))
             else (NoResume, sm1))
          else (NoResume, sm1))"


section \<open>The certificate API (certificate\_api/main.py)\<close>

subsection \<open>Data\<close>

text \<open>
  A JSON object whose entries are strings, in the order of its keys: the user object of
  the identity service and a row of the \<open>certificates\<close> table. \<open>map_of\<close> reads a key.
\<close>

type_synonym jobject = "(string \<times> string) list"

record sanitization_details =
  d_manufacturer :: string
  d_model :: string
  d_serial_number :: string
  d_property_number :: "string option"
  d_media_type :: string
  d_media_source :: string
  d_pre_sanitization_confidentiality :: "string option"
  d_sanitization_method :: string
  d_sanitization_technique :: string
  d_tool_used :: string
  d_verification_method :: string
  d_post_sanitization_confidentiality :: "string option"
  d_post_sanitization_destination :: "string option"

text \<open>
  The dictionary inserted into the \<open>certificates\<close> table: \<open>cd_details\<close> stands for the
  thirteen entries copied from the request, key by key.
\<close>

record certificate_data =
  cd_certificate_id :: string
  cd_user_id :: string
  cd_user_email :: string
  cd_details :: sanitization_details
  cd_pdf_url :: string
  cd_created_at :: string

record certificate_response =
  cr_certificate_id :: string
  cr_pdf_url :: string
  cr_created_at :: string
  cr_user_id :: string
  cr_device_model :: string
  cr_message :: string

record my_certificates =
  mc_user_id :: string
  mc_certificates :: "jobject list"
  mc_count :: nat

record device_certificates =
  dc_device_model :: string
  dc_manufacturer :: string
  dc_total_certificates :: nat
  dc_certificates :: "jobject list"

record user_info_response =
  ur_user_id :: string
  ur_email :: "string option"
  ur_authenticated :: bool

text \<open>
  The exceptions that reach the \<open>except Exception\<close> clause of a handler:
  \<open>HTTPException(status_code, detail)\<close> raised by the handler itself, the \<open>KeyError\<close>
  of a missing key, and what the \<open>requests\<close> call, \<open>response.json()\<close> and the PDF
  library raise.
\<close>

datatype exn =
    HTTPException nat string
  | KeyError string
  | RequestsError string
  | JSONError string
  | RenderError string

text \<open>
  What a handler gives to the framework: the value it returns (HTTP 200), or the
  \<open>HTTPException(status_code = n, detail = prefix + str(e))\<close> raised in its
  \<open>except\<close> clause, written \<open>HTTPError n prefix e\<close>.
\<close>

datatype 'a reply = Ok 'a | HTTPError nat string exn

primrec reply_status :: "'a reply \<Rightarrow> nat" where
  "reply_status (Ok v) = 200"
| "reply_status (HTTPError n prefix e) = n"

datatype param = PStr string | PInt int

text \<open>The requests a handler sends to the remote services, in order.\<close>

datatype api_request =
    VerifyUser string
  | UploadFile string string string
  | InsertRecord string certificate_data
  | SelectRecords string "(string \<times> param) list"

text \<open>
  The remote services as one request sees them: the client's \<open>url\<close> and the answer to
  each call of \<open>SimpleSupabaseClient\<close>.
\<close>

record services =
  url :: string
  auth_user :: "string \<Rightarrow> jobject http"
  storage_post :: "string \<Rightarrow> string \<Rightarrow> string \<Rightarrow> unit http"
  rest_post :: "string \<Rightarrow> certificate_data \<Rightarrow> unit http"
  rest_get :: "string \<Rightarrow> (string \<times> param) list \<Rightarrow> jobject list http"

text \<open>
  What the handler takes from its surroundings: the fresh \<open>uuid.uuid4()\<close>, the PDF
  renderer (\<open>Inl\<close> when it raises) and the two readings of \<open>datetime.now().isoformat()\<close>.
\<close>

record env =
  uuid4 :: string
  generate_pdf_certificate :: "sanitization_details \<Rightarrow> string \<Rightarrow> string \<Rightarrow> string + string"
  now_record :: string
  now_result :: string

subsection \<open>SimpleSupabaseClient\<close>

definition verify_user :: "services \<Rightarrow> string \<Rightarrow> exn + jobject option" where
  "verify_user sv token =
     (case auth_user sv token of
        Raises e \<Rightarrow> Inl (RequestsError e)
      | Response st txt body \<Rightarrow>
          if st = 200
          then (case body of Inl e \<Rightarrow> Inl (JSONError e) | Inr v \<Rightarrow> Inr (Some v))
          else Inr None)"

definition get_public_url :: "services \<Rightarrow> string \<Rightarrow> string \<Rightarrow> string" where
  "get_public_url sv bucket filename =
     url sv @ ''/storage/v1/object/public/'' @ bucket @ ''/'' @ filename"

text \<open>
  The \<open>params\<close> dictionary of \<open>select_records\<close>; \<open>AList.update\<close> is the assignment
  \<open>params[k] = v\<close>. \<open>if filters\<close>, \<open>if limit\<close> and \<open>if offset\<close> are Python truth tests.
\<close>

definition select_params ::
  "(string \<times> string) list option \<Rightarrow> int option \<Rightarrow> int option \<Rightarrow> (string \<times> param) list" where
  "select_params filters limit offset =
     (let params0 = [];
          params1 = (case filters of
                       None \<Rightarrow> params0
                     | Some fs \<Rightarrow>
                         fold (\<lambda>(key, value) ps. AList.update key (PStr (''eq.'' @ value)) ps)
                              fs params0);
          params2 = (case limit of
                       None \<Rightarrow> params1
                     | Some l \<Rightarrow> if l \<noteq> 0 then AList.update ''limit'' (PInt l) params1
                                else params1);
          params3 = (case offset of
                       None \<Rightarrow> params2
                     | Some off \<Rightarrow> if off \<noteq> 0 then AList.update ''offset'' (PInt off) params2
                                  else params2)
      in params3)"

definition select_records ::
  "services \<Rightarrow> string \<Rightarrow> (string \<times> string) list option \<Rightarrow> int option \<Rightarrow> int option
     \<Rightarrow> jobject list http \<times> api_request list" where
  "select_records sv table filters limit offset =
     (rest_get sv table (select_params filters limit offset),
      [SelectRecords table (select_params filters limit offset)])"

subsection \<open>Handlers\<close>

text \<open>
  The first statements of every authenticated handler, the same text in each: the test
  of the \<open>Authorization\<close> header, the token, \<open>verify_user\<close> and the test of its
  result.
\<close>

definition authorize ::
  "services \<Rightarrow> string option \<Rightarrow> (exn + jobject) \<times> api_request list" where
  "authorize sv authorization =
     (case authorization of
        None \<Rightarrow> (Inl (HTTPException 401 ''Missing or invalid authorization header''), [])
      | Some a \<Rightarrow>
          if a = [] \<or> \<not> startswith a ''Bearer ''
          then (Inl (HTTPException 401 ''Missing or invalid authorization header''), [])
          else
            (let token = str_replace ''Bearer '' [] a
             in case verify_user sv token of
                  Inl e \<Rightarrow> (Inl e, [VerifyUser token])
                | Inr None \<Rightarrow>
                    (Inl (HTTPException 401 ''Invalid authentication token''), [VerifyUser token])
                | Inr (Some user_info) \<Rightarrow>
                    if user_info = []
                    then (Inl (HTTPException 401 ''Invalid authentication token''),
                          [VerifyUser token])
                    else (Inr user_info, [VerifyUser token])))"

text \<open>The \<open>try\<close> block of \<open>generate_certificate\<close>.\<close>

definition generate_certificate_try ::
  "env \<Rightarrow> services \<Rightarrow> sanitization_details \<Rightarrow> string option
     \<Rightarrow> (exn + certificate_response) \<times> api_request list" where
  "generate_certificate_try ev sv details authorization =
     (case authorize sv authorization of
        (Inl e, tr) \<Rightarrow> (Inl e, tr)
      | (Inr user_info, tr) \<Rightarrow>
          (case map_of user_info ''id'' of
             None \<Rightarrow> (Inl (KeyError ''id''), tr)
           | Some user_id \<Rightarrow>
               (let user_email = (case map_of user_info ''email'' of
                                    None \<Rightarrow> ''unknown@example.com'' | Some m \<Rightarrow> m);
                    certificate_id = uuid4 ev
                in case generate_pdf_certificate ev details certificate_id user_email of
                     Inl e \<Rightarrow> (Inl (RenderError e), tr)
                   | Inr pdf_bytes \<Rightarrow>
                       (let safe_model = str_replace ''/'' ''_''
                                           (str_replace '' '' ''_'' (d_model details));
                            filename = ''cert_'' @ user_id @ ''_'' @ safe_model @ ''_''
                                         @ certificate_id @ ''.pdf'';
                            tr1 = tr @ [UploadFile ''certificates'' filename pdf_bytes]
                        in case storage_post sv ''certificates'' filename pdf_bytes of
                             Raises e \<Rightarrow> (Inl (RequestsError e), tr1)
                           | Response st txt body \<Rightarrow>
                               if st \<noteq> 200 \<and> st \<noteq> 201
                               then (Inl (HTTPException 500 (''Failed to upload PDF: '' @ txt)),
                                     tr1)
                               else
                                 (let pdf_url = get_public_url sv ''certificates'' filename;
                                      certificate_data =
                                        \<lparr>cd_certificate_id = certificate_id,
                                         cd_user_id = user_id,
                                         cd_user_email = user_email,
                                         cd_details = details,
                                         cd_pdf_url = pdf_url,
                                         cd_created_at = now_record ev\<rparr>;
                                      tr2 = tr1 @ [InsertRecord ''certificates'' certificate_data]
                                  in case rest_post sv ''certificates'' certificate_data of
                                       Raises e \<Rightarrow> (Inl (RequestsError e), tr2)
                                     | Response st2 txt2 body2 \<Rightarrow>
                                         if st2 \<noteq> 200 \<and> st2 \<noteq> 201
                                         then (Inl (HTTPException 500
                                                 (''Failed to store certificate in database: ''
                                                    @ txt2)), tr2)
                                         else
                                           (Inr \<lparr>cr_certificate_id = certificate_id,
                                                 cr_pdf_url = pdf_url,
                                                 cr_created_at = now_result ev,
                                                 cr_user_id = user_id,
                                                 cr_device_model = d_model details,
                                                 cr_message =
                                                   ''Certificate generated and stored successfully''\<rparr>,
                                            tr2))))))"

text \<open>
  \<open>generate_certificate\<close>: the \<open>try\<close> block under \<open>except Exception as e\<close>, which
  raises \<open>HTTPException(status_code=500, ...)\<close> for every exception of the block, the
  block's own \<open>HTTPException\<close>s included (\<open>HTTPException\<close> is a subclass of
  \<open>Exception\<close>).
\<close>

definition generate_certificate ::
  "env \<Rightarrow> services \<Rightarrow> sanitization_details \<Rightarrow> string option
     \<Rightarrow> certificate_response reply \<times> api_request list" where
  "generate_certificate ev sv details authorization =
     (case generate_certificate_try ev sv details authorization of
        (Inl e, tr) \<Rightarrow> (HTTPError 500 ''Error generating certificate: '' e, tr)
      | (Inr result, tr) \<Rightarrow> (Ok result, tr))"

definition get_my_certificates_try ::
  "services \<Rightarrow> string option \<Rightarrow> int \<Rightarrow> int \<Rightarrow> (exn + my_certificates) \<times> api_request list" where
  "get_my_certificates_try sv authorization limit offset =
     (case authorize sv authorization of
        (Inl e, tr) \<Rightarrow> (Inl e, tr)
      | (Inr user_info, tr) \<Rightarrow>
          (case map_of user_info ''id'' of
             None \<Rightarrow> (Inl (KeyError ''id''), tr)
           | Some user_id \<Rightarrow>
               (case select_records sv ''certificates'' (Some [(''user_id'', user_id)])
                       (Some limit) (Some offset) of
                  (Raises e, tr1) \<Rightarrow> (Inl (RequestsError e), tr @ tr1)
                | (Response st txt body, tr1) \<Rightarrow>
                    if st \<noteq> 200
                    then (Inl (HTTPException 500 (''Database error: '' @ txt)), tr @ tr1)
                    else (case body of
                            Inl e \<Rightarrow> (Inl (JSONError e), tr @ tr1)
                          | Inr data \<Rightarrow>
                              (Inr \<lparr>mc_user_id = user_id, mc_certificates = data,
                                    mc_count = length data\<rparr>, tr @ tr1)))))"

definition get_my_certificates ::
  "services \<Rightarrow> string option \<Rightarrow> int \<Rightarrow> int \<Rightarrow> my_certificates reply \<times> api_request list" where
  "get_my_certificates sv authorization limit offset =
     (case get_my_certificates_try sv authorization limit offset of
        (Inl e, tr) \<Rightarrow> (HTTPError 500 ''Error retrieving certificates: '' e, tr)
      | (Inr result, tr) \<Rightarrow> (Ok result, tr))"

definition get_certificates_by_device_try ::
  "services \<Rightarrow> string \<Rightarrow> string option \<Rightarrow> (exn + device_certificates) \<times> api_request list" where
  "get_certificates_by_device_try sv model authorization =
     (case authorize sv authorization of
        (Inl e, tr) \<Rightarrow> (Inl e, tr)
      | (Inr user_info, tr) \<Rightarrow>
          (case map_of user_info ''id'' of
             None \<Rightarrow> (Inl (KeyError ''id''), tr)
           | Some user_id \<Rightarrow>
               (case select_records sv ''certificates''
                       (Some [(''user_id'', user_id), (''model'', model)]) None None of
                  (Raises e, tr1) \<Rightarrow> (Inl (RequestsError e), tr @ tr1)
                | (Response st txt body, tr1) \<Rightarrow>
                    if st \<noteq> 200
                    then (Inl (HTTPException 500 (''Database error: '' @ txt)), tr @ tr1)
                    else (case body of
                            Inl e \<Rightarrow> (Inl (JSONError e), tr @ tr1)
                          | Inr data \<Rightarrow>
                              (case data of
                                 [] \<Rightarrow>
                                   (Inl (HTTPException 404
                                           (''No certificates found for device model: '' @ model)),
                                    tr @ tr1)
                               | row # rest \<Rightarrow>
                                   (case map_of row ''manufacturer'' of
                                      None \<Rightarrow> (Inl (KeyError ''manufacturer''), tr @ tr1)
                                    | Some m \<Rightarrow>
                                        (Inr \<lparr>dc_device_model = model,
                                              dc_manufacturer = m,
                                              dc_total_certificates = length data,
                                              dc_certificates = data\<rparr>, tr @ tr1)))))))"

definition get_certificates_by_device ::
  "services \<Rightarrow> string \<Rightarrow> string option \<Rightarrow> device_certificates reply \<times> api_request list" where
  "get_certificates_by_device sv model authorization =
     (case get_certificates_by_device_try sv model authorization of
        (Inl e, tr) \<Rightarrow> (HTTPError 500 ''Error retrieving device certificates: '' e, tr)
      | (Inr result, tr) \<Rightarrow> (Ok result, tr))"

text \<open>\<open>get_user_info\<close>, whose \<open>except\<close> clause raises with status 401.\<close>

definition get_user_info ::
  "services \<Rightarrow> string option \<Rightarrow> user_info_response reply \<times> api_request list" where
  "get_user_info sv authorization =
     (case authorize sv authorization of
        (Inl e, tr) \<Rightarrow> (HTTPError 401 ''Authentication error: '' e, tr)
      | (Inr user_info, tr) \<Rightarrow>
          (case map_of user_info ''id'' of
             None \<Rightarrow> (HTTPError 401 ''Authentication error: '' (KeyError ''id''), tr)
           | Some user_id \<Rightarrow>
               (Ok \<lparr>ur_user_id = user_id, ur_email = map_of user_info ''email'',
                    ur_authenticated = True\<rparr>, tr)))"


section \<open>Classification used by the specification\<close>

text \<open>
  The specification's "the HTTP layer itself errors (timeout, DNS, 5xx)": the request
  raises, or the response has a status of 500 or more.
\<close>

definition http_layer_error :: "'a http \<Rightarrow> bool" where
  "http_layer_error x =
     (case x of Raises e \<Rightarrow> True | Response st txt body \<Rightarrow> 500 \<le> st)"

text \<open>The queries among the requests of a handler, and the keys of a query.\<close>

fun queries :: "api_request list \<Rightarrow> (string \<times> param) list list" where
  "queries [] = []"
| "queries (SelectRecords table params # tr) = params # queries tr"
| "queries (other # tr) = queries tr"

fun is_side_effect :: "api_request \<Rightarrow> bool" where
  "is_side_effect (UploadFile bucket filename data) = True"
| "is_side_effect (InsertRecord table row) = True"
| "is_side_effect other = False"


section \<open>Concrete runs\<close>

subsection \<open>Sign-in\<close>

definition am0 :: auth_manager where
  "am0 = \<lparr>current_user = None, access_token = None\<rparr>"

definition remote_user :: user_data where
  "remote_user = \<lparr>u_id = Some ''9f3c'', u_email = Some ''a@b.com'', u_table_name = None,
                   u_created_at = Some ''2024-01-01T00:00:00'', u_table_auth = False\<rparr>"

definition grant :: auth_json where
  "grant = \<lparr>j_access_token = Some ''jwt-1'', j_user = Val remote_user,
             j_error_description = None\<rparr>"

definition denial :: auth_json where
  "denial = \<lparr>j_access_token = None, j_user = Missing,
              j_error_description = Some ''Invalid login credentials''\<rparr>"

definition row_x :: user_row where
  "row_x = \<lparr>r_id = Some ''7'', r_email = Some ''a@b.com'', r_password = Some ''x'',
             r_created_at = None\<rparr>"

definition row_blank :: user_row where
  "row_blank = \<lparr>r_id = Some ''8'', r_email = Some ''c@d.com'', r_password = Some [],
                 r_created_at = None\<rparr>"

text \<open>The identity service accepts the credential.\<close>

definition net_remote_ok :: network where
  "net_remote_ok = \<lparr>probe_get = (\<lambda>e. Some 200),
                     token_post = (\<lambda>e p. Response 200 [] (Inr grant)),
                     users_get = (\<lambda>e. Response 200 [] (Inr [row_x]))\<rparr>"

text \<open>
  The example of the specification: no account at the identity service, one table row
  with the secret \<open>x\<close>.
\<close>

definition net_table_only :: network where
  "net_table_only = \<lparr>probe_get = (\<lambda>e. Some 200),
                      token_post = (\<lambda>e p. Response 400 [] (Inr denial)),
                      users_get = (\<lambda>e. Response 200 [] (Inr [row_x]))\<rparr>"

text \<open>The same with a row whose stored secret is the empty string.\<close>

definition net_blank_secret :: network where
  "net_blank_secret = \<lparr>probe_get = (\<lambda>e. Some 200),
                        token_post = (\<lambda>e p. Response 400 [] (Inr denial)),
                        users_get = (\<lambda>e. Response 200 [] (Inr [row_blank]))\<rparr>"

text \<open>The password-grant request times out; the table has the row.\<close>

definition net_timeout_then_table :: network where
  "net_timeout_then_table = \<lparr>probe_get = (\<lambda>e. Some 200),
                              token_post = (\<lambda>e p. Raises ''Read timed out''),
                              users_get = (\<lambda>e. Response 200 [] (Inr [row_x]))\<rparr>"

text \<open>The password-grant request times out and the table query answers 503.\<close>

definition net_timeout_both :: network where
  "net_timeout_both = \<lparr>probe_get = (\<lambda>e. Some 200),
                        token_post = (\<lambda>e p. Raises ''Read timed out''),
                        users_get = (\<lambda>e. Response 503 [] (Inl ''Expecting value''))\<rparr>"

text \<open>The first probe raises; the credential is unknown to both strategies.\<close>

definition net_no_user :: network where
  "net_no_user = \<lparr>probe_get = (\<lambda>e. if e = ''https://www.google.com'' then None else Some 200),
                   token_post = (\<lambda>e p. Response 400 [] (Inr denial)),
                   users_get = (\<lambda>e. Response 200 [] (Inr []))\<rparr>"

subsection \<open>Session\<close>

definition table_user :: user_data where
  "table_user = \<lparr>u_id = Some ''7'', u_email = Some ''a@b.com'', u_table_name = Some ''Users'',
                  u_created_at = None, u_table_auth = True\<rparr>"

definition sm0 :: session_manager where
  "sm0 = \<lparr>session_file = None, readable = True, writable = True, removable = True,
           session_data = empty_session\<rparr>"

definition table_success :: sign_in_result where
  "table_success = Success \<lparr>j_access_token = None, j_user = Val table_user,
                            j_error_description = None\<rparr> ''user_table''"

subsection \<open>Certificate API\<close>

definition user_object :: jobject where
  "user_object = [(''id'', ''u1''), (''email'', ''a@b.com'')]"

definition row1 :: jobject where
  "row1 = [(''certificate_id'', ''c1''), (''manufacturer'', ''Lenovo''), (''model'', ''T14'')]"

definition row2 :: jobject where
  "row2 = [(''certificate_id'', ''c2''), (''manufacturer'', ''Dell''), (''model'', ''XPS'')]"

text \<open>The identity service rejects every token.\<close>

definition sv_reject :: services where
  "sv_reject = \<lparr>url = ''https://p.supabase.co'',
                 auth_user = (\<lambda>t. Response 401 ''invalid JWT'' (Inl ''not an object'')),
                 storage_post = (\<lambda>b f d. Response 200 [] (Inr ())),
                 rest_post = (\<lambda>t r. Response 201 [] (Inr ())),
                 rest_get = (\<lambda>t ps. Response 200 ''[]'' (Inr []))\<rparr>"

text \<open>The token \<open>good\<close> is valid; the user has no certificate.\<close>

definition sv_no_rows :: services where
  "sv_no_rows = \<lparr>url = ''https://p.supabase.co'',
                  auth_user = (\<lambda>t. if t = ''good'' then Response 200 [] (Inr user_object)
                                    else Response 401 ''invalid JWT'' (Inl ''not an object'')),
                  storage_post = (\<lambda>b f d. Response 200 [] (Inr ())),
                  rest_post = (\<lambda>t r. Response 201 [] (Inr ())),
                  rest_get = (\<lambda>t ps. Response 200 ''[]'' (Inr []))\<rparr>"

text \<open>
  The token \<open>good\<close> is valid; the database holds two rows and honours \<open>limit\<close>: a query
  with \<open>limit = 0\<close> in its parameters is answered with no row.
\<close>

definition sv_two_rows :: services where
  "sv_two_rows = \<lparr>url = ''https://p.supabase.co'',
                   auth_user = (\<lambda>t. if t = ''good'' then Response 200 [] (Inr user_object)
                                     else Response 401 ''invalid JWT'' (Inl ''not an object'')),
                   storage_post = (\<lambda>b f d. Response 200 [] (Inr ())),
                   rest_post = (\<lambda>t r. Response 201 [] (Inr ())),
                   rest_get = (\<lambda>t ps. if map_of ps ''limit'' = Some (PInt 0)
                                       then Response 200 ''[]'' (Inr [])
                                       else Response 200 [] (Inr [row1, row2]))\<rparr>"

definition details0 :: sanitization_details where
  "details0 = \<lparr>d_manufacturer = ''Lenovo'', d_model = ''T14 Gen/2'', d_serial_number = ''S1'',
                d_property_number = None, d_media_type = ''flash memory'',
                d_media_source = ''computer'', d_pre_sanitization_confidentiality = None,
                d_sanitization_method = ''purge'', d_sanitization_technique = ''overwrite'',
                d_tool_used = ''obliterator 1.0'', d_verification_method = ''sampling'',
                d_post_sanitization_confidentiality = None,
                d_post_sanitization_destination = None\<rparr>"

definition env0 :: env where
  "env0 = \<lparr>uuid4 = ''0000-1'',
            generate_pdf_certificate = (\<lambda>d c m. Inr (''%PDF '' @ c @ '' '' @ m)),
            now_record = ''2026-01-01T00:00:00'', now_result = ''2026-01-01T00:00:01''\<rparr>"


section \<open>Sign-in: the fallback chain\<close>

subsection \<open>The two strategies\<close>

lemma probe_endpoints_only_probes:
  "probe_endpoints w es = (b, tr) \<Longrightarrow> TokenPost e p \<notin> set tr \<and> UsersGet e \<notin> set tr"
  by (induction es arbitrary: b tr) (auto split: if_splits prod.splits)

lemma check_internet_only_probes:
  "check_internet_connection w = (b, tr) \<Longrightarrow> TokenPost e p \<notin> set tr \<and> UsersGet e \<notin> set tr"
  unfolding check_internet_connection_def by (rule probe_endpoints_only_probes)

lemma try_supabase_auth_requests:
  "try_supabase_auth w email password am = (r, am1, tr) \<Longrightarrow> tr = [TokenPost email password]"
  by (auto simp: try_supabase_auth_def split: http.splits sum.splits if_splits)

lemma try_supabase_auth_failure_keeps_manager:
  "try_supabase_auth w email password am = (r, am1, tr) \<Longrightarrow> \<not> success r \<Longrightarrow> am1 = am"
  by (auto simp: try_supabase_auth_def split: http.splits sum.splits if_splits)

lemma try_supabase_auth_success_manager:
  "try_supabase_auth w email password am = (Success d m, am1, tr) \<Longrightarrow>
     current_user am1 = entry_get (j_user d) \<and> access_token am1 = j_access_token d
     \<and> m = ''supabase_auth''"
  by (auto simp: try_supabase_auth_def split: http.splits sum.splits if_splits)

lemma try_user_table_auth_requests:
  "try_user_table_auth w email password am = (r, am1, tr) \<Longrightarrow> tr = [UsersGet email]"
  by (auto simp: try_user_table_auth_def Let_def split: http.splits sum.splits if_splits list.splits)

lemma try_user_table_auth_failure_keeps_manager:
  "try_user_table_auth w email password am = (r, am1, tr) \<Longrightarrow> \<not> success r \<Longrightarrow> am1 = am"
  by (auto simp: try_user_table_auth_def Let_def split: http.splits sum.splits if_splits list.splits)

lemma try_user_table_auth_http_error:
  "http_layer_error (users_get w email) \<Longrightarrow> \<not> success (fst (try_user_table_auth w email password am))"
  by (auto simp: try_user_table_auth_def http_layer_error_def split: http.splits)

lemma try_supabase_auth_http_error:
  "http_layer_error (token_post w email password) \<Longrightarrow>
     \<not> success (fst (try_supabase_auth w email password am))"
  by (auto simp: try_supabase_auth_def http_layer_error_def split: http.splits sum.splits)

lemma try_supabase_auth_raises:
  "token_post w email password = Raises e \<Longrightarrow>
     try_supabase_auth w email password am = (Failure e, am, [TokenPost email password])"
  by (simp add: try_supabase_auth_def)

lemma sign_in_attempted:
  assumes "sign_in w email password am = (r, am', tr)" "TokenPost email password \<in> set tr"
  shows "fst (check_internet_connection w)"
proof (rule ccontr)
  assume n: "\<not> fst (check_internet_connection w)"
  obtain b tr0 where c: "check_internet_connection w = (b, tr0)"
    by (cases "check_internet_connection w")
  with n have "\<not> b" by simp
  with assms(1) c have "tr = tr0" by (simp add: sign_in_def)
  with check_internet_only_probes[OF c] assms(2) show False by blast
qed

text \<open>The two exits of \<open>sign_in\<close> once the probe has passed.\<close>

lemma sign_in_first_succeeds:
  assumes "check_internet_connection w = (True, tr0)"
    and "try_supabase_auth w email password am = (r1, am1, tr1)" and "success r1"
  shows "sign_in w email password am = (r1, am1, tr0 @ tr1)"
  using assms by (simp add: sign_in_def)

lemma sign_in_first_fails:
  assumes "check_internet_connection w = (True, tr0)"
    and "try_supabase_auth w email password am = (r1, am1, tr1)" and "\<not> success r1"
    and "try_user_table_auth w email password am = (r2, am2, tr2)"
  shows "sign_in w email password am =
           (if success r2 then r2 else Failure ''Invalid email or password'', am2,
            tr0 @ tr1 @ tr2)"
proof -
  from try_supabase_auth_failure_keeps_manager[OF assms(2,3)] have "am1 = am" .
  with assms show ?thesis by (simp add: sign_in_def)
qed

subsection \<open>Short-circuit on the first strategy\<close>

text \<open>
  Claim C7. In every run of \<open>sign_in\<close> that sends the password-grant request (the
  strategy REMOTE\_AUTH is run) and for which \<open>_try_supabase_auth\<close> succeeds,
  \<open>sign_in\<close> returns the dictionary of that strategy, the manager holds its identity
  and its access token, and no request to the user table is sent: TABLE\_LOOKUP is never
  attempted.
\<close>

theorem sign_in_remote_auth_short_circuit:
  assumes run: "sign_in w email password am = (r, am', tr)"
    and attempted: "TokenPost email password \<in> set tr"
    and ok: "try_supabase_auth w email password am = (Success d m, am1, tr1)"
  shows "r = Success d m \<and> m = ''supabase_auth'' \<and> am' = am1
         \<and> current_user am' = entry_get (j_user d) \<and> access_token am' = j_access_token d
         \<and> (\<forall>e. UsersGet e \<notin> set tr)"
proof -
  obtain b tr0 where c: "check_internet_connection w = (b, tr0)"
    by (cases "check_internet_connection w")
  from sign_in_attempted[OF run attempted] c have c': "check_internet_connection w = (True, tr0)"
    by simp
  from sign_in_first_succeeds[OF c' ok] run
  have eqs: "r = Success d m" "am' = am1" "tr = tr0 @ tr1" by simp_all
  from try_supabase_auth_requests[OF ok] have "tr1 = [TokenPost email password]" .
  with eqs check_internet_only_probes[OF c] have "\<forall>e. UsersGet e \<notin> set tr" by auto
  with eqs try_supabase_auth_success_manager[OF ok] show ?thesis by simp
qed

text \<open>Unfolding a run on a concrete network.\<close>

lemmas run_defs = sign_in_def check_internet_connection_def endpoints_def try_supabase_auth_def
  try_user_table_auth_def verify_password_def falsy_def py_str_def table_name_def am0_def Let_def

theorem sign_in_remote_auth_short_circuit_witness:
  "sign_in net_remote_ok ''a@b.com'' ''x'' am0
     = (Success grant ''supabase_auth'',
        \<lparr>current_user = Some remote_user, access_token = Some ''jwt-1''\<rparr>,
        [ProbeGet ''https://www.google.com'', TokenPost ''a@b.com'' ''x''])
   \<and> try_supabase_auth net_remote_ok ''a@b.com'' ''x'' am0
     = (Success grant ''supabase_auth'',
        \<lparr>current_user = Some remote_user, access_token = Some ''jwt-1''\<rparr>,
        [TokenPost ''a@b.com'' ''x''])
   \<and> (\<forall>e. UsersGet e \<notin> set [ProbeGet ''https://www.google.com'', TokenPost ''a@b.com'' ''x''])"
proof -
  have run: "sign_in net_remote_ok ''a@b.com'' ''x'' am0
     = (Success grant ''supabase_auth'',
        \<lparr>current_user = Some remote_user, access_token = Some ''jwt-1''\<rparr>,
        [ProbeGet ''https://www.google.com'', TokenPost ''a@b.com'' ''x''])"
    by (simp add: run_defs net_remote_ok_def grant_def)
  have ok: "try_supabase_auth net_remote_ok ''a@b.com'' ''x'' am0
     = (Success grant ''supabase_auth'',
        \<lparr>current_user = Some remote_user, access_token = Some ''jwt-1''\<rparr>,
        [TokenPost ''a@b.com'' ''x''])"
    by (simp add: run_defs net_remote_ok_def grant_def)
  have att: "TokenPost ''a@b.com'' ''x''
               \<in> set [ProbeGet ''https://www.google.com'', TokenPost ''a@b.com'' ''x'']"
    by simp
  from sign_in_remote_auth_short_circuit[OF run att ok] run ok show ?thesis by blast
qed

subsection \<open>Both strategies fail\<close>

lemma sign_in_both_fail:
  assumes run: "sign_in w email password am = (r, am', tr)"
    and attempted: "TokenPost email password \<in> set tr"
    and f1: "\<not> success (fst (try_supabase_auth w email password am))"
    and f2: "\<not> success (fst (try_user_table_auth w email password am))"
  shows "r = Failure ''Invalid email or password''"
proof -
  obtain b tr0 where c: "check_internet_connection w = (b, tr0)"
    by (cases "check_internet_connection w")
  from sign_in_attempted[OF run attempted] c have c': "check_internet_connection w = (True, tr0)"
    by simp
  obtain r1 am1 tr1 where s1: "try_supabase_auth w email password am = (r1, am1, tr1)"
    by (cases "try_supabase_auth w email password am")
  obtain r2 am2 tr2 where s2: "try_user_table_auth w email password am = (r2, am2, tr2)"
    by (cases "try_user_table_auth w email password am")
  from f1 s1 have n1: "\<not> success r1" by simp
  from f2 s2 have n2: "\<not> success r2" by simp
  from sign_in_first_fails[OF c' s1 n1 s2] run n2 show ?thesis by simp
qed

text \<open>
  Claim C8. For every two runs of \<open>sign_in\<close> in which both strategies are run and
  both fail, the dictionary returned to the caller is the same,
  \<open>{"success": False, "error": "Invalid email or password"}\<close>, whatever the networks,
  the credentials and the reasons of the two failures.
\<close>

theorem sign_in_both_fail_same_message:
  assumes run1: "sign_in w1 email1 password1 am1 = (r1, am1', tr1)"
    and run2: "sign_in w2 email2 password2 am2 = (r2, am2', tr2)"
    and attempted1: "TokenPost email1 password1 \<in> set tr1"
    and attempted2: "TokenPost email2 password2 \<in> set tr2"
    and remote1: "\<not> success (fst (try_supabase_auth w1 email1 password1 am1))"
    and table1: "\<not> success (fst (try_user_table_auth w1 email1 password1 am1))"
    and remote2: "\<not> success (fst (try_supabase_auth w2 email2 password2 am2))"
    and table2: "\<not> success (fst (try_user_table_auth w2 email2 password2 am2))"
  shows "r1 = r2 \<and> r1 = Failure ''Invalid email or password''"
  using sign_in_both_fail[OF run1 attempted1 remote1 table1]
        sign_in_both_fail[OF run2 attempted2 remote2 table2]
  by simp

theorem sign_in_both_fail_same_message_witness:
  "sign_in net_no_user ''nobody@b.com'' ''x'' am0
     = (Failure ''Invalid email or password'', am0,
        [ProbeGet ''https://www.google.com'', ProbeGet ''https://httpbin.org/get'',
         TokenPost ''nobody@b.com'' ''x'', UsersGet ''nobody@b.com''])
   \<and> sign_in net_timeout_both ''a@b.com'' ''wrong'' am0
     = (Failure ''Invalid email or password'', am0,
        [ProbeGet ''https://www.google.com'', TokenPost ''a@b.com'' ''wrong'',
         UsersGet ''a@b.com''])
   \<and> fst (try_supabase_auth net_no_user ''nobody@b.com'' ''x'' am0)
         = Failure ''Invalid login credentials''
   \<and> fst (try_user_table_auth net_no_user ''nobody@b.com'' ''x'' am0) = Failure ''User not found''
   \<and> fst (try_supabase_auth net_timeout_both ''a@b.com'' ''wrong'' am0) = Failure ''Read timed out''
   \<and> fst (try_user_table_auth net_timeout_both ''a@b.com'' ''wrong'' am0)
         = Failure ''Database query failed: 503''"
proof -
  have run1: "sign_in net_no_user ''nobody@b.com'' ''x'' am0
     = (Failure ''Invalid email or password'', am0,
        [ProbeGet ''https://www.google.com'', ProbeGet ''https://httpbin.org/get'',
         TokenPost ''nobody@b.com'' ''x'', UsersGet ''nobody@b.com''])"
    by (simp add: run_defs net_no_user_def denial_def)
  have run2: "sign_in net_timeout_both ''a@b.com'' ''wrong'' am0
     = (Failure ''Invalid email or password'', am0,
        [ProbeGet ''https://www.google.com'', TokenPost ''a@b.com'' ''wrong'',
         UsersGet ''a@b.com''])"
    by (simp add: run_defs net_timeout_both_def)
  have s1: "fst (try_supabase_auth net_no_user ''nobody@b.com'' ''x'' am0)
         = Failure ''Invalid login credentials''"
    by (simp add: run_defs net_no_user_def denial_def)
  have t1: "fst (try_user_table_auth net_no_user ''nobody@b.com'' ''x'' am0)
         = Failure ''User not found''"
    by (simp add: run_defs net_no_user_def)
  have s2: "fst (try_supabase_auth net_timeout_both ''a@b.com'' ''wrong'' am0)
         = Failure ''Read timed out''"
    by (simp add: run_defs net_timeout_both_def)
  have n503: "str_nat 503 = ''503''" by code_simp
  have t2: "fst (try_user_table_auth net_timeout_both ''a@b.com'' ''wrong'' am0)
         = Failure ''Database query failed: 503''"
    by (simp add: run_defs net_timeout_both_def n503)
  have "Failure ''Invalid email or password'' = Failure ''Invalid email or password''
        \<and> Failure ''Invalid email or password'' = Failure ''Invalid email or password''"
    using sign_in_both_fail_same_message[OF run1 run2] s1 t1 s2 t2 by simp
  with run1 run2 s1 t1 s2 t2 show ?thesis by blast
qed

subsection \<open>The table strategy\<close>

text \<open>
  A row whose stored secret is the empty string equals the provided empty secret under
  plain equality, and \<open>_verify_password\<close> rejects it: \<open>if not stored_password\<close>.
\<close>

theorem blank_secret_is_rejected:
  "\<not> success (fst (try_supabase_auth net_blank_secret ''c@d.com'' [] am0))
   \<and> users_get net_blank_secret ''c@d.com'' = Response 200 [] (Inr [row_blank])
   \<and> r_email row_blank = Some ''c@d.com''
   \<and> r_password row_blank = Some []
   \<and> sign_in net_blank_secret ''c@d.com'' [] am0
       = (Failure ''Invalid email or password'', am0,
          [ProbeGet ''https://www.google.com'', TokenPost ''c@d.com'' [], UsersGet ''c@d.com''])"
  by (simp add: run_defs net_blank_secret_def denial_def row_blank_def)

text \<open>
  Claim C5, amended. For every run of \<open>sign_in\<close> in which REMOTE\_AUTH is run and
  fails, and the table query answers 200 with exactly one row whose stored secret is
  non-empty and equal to the provided secret, \<open>sign_in\<close> succeeds with the method
  \<open>user_table\<close>; the access token is \<open>table_auth_\<close> followed by the row's id, and
  the identity is built from the row.
\<close>

theorem table_lookup_signs_in:
  assumes run: "sign_in w email password am = (r, am', tr)"
    and attempted: "TokenPost email password \<in> set tr"
    and remote: "\<not> success (fst (try_supabase_auth w email password am))"
    and one_row: "users_get w email = Response 200 txt (Inr [row])"
    and secret: "r_password row = Some password"
    and nonempty: "password \<noteq> []"
  shows "(\<exists>d. r = Success d ''user_table'' \<and> entry_get (j_user d) = current_user am')
         \<and> access_token am' = Some (''table_auth_'' @ py_str (r_id row))
         \<and> current_user am' = Some \<lparr>u_id = Some (py_str (r_id row)), u_email = r_email row,
                                     u_table_name = Some ''Users'',
                                     u_created_at = r_created_at row, u_table_auth = True\<rparr>"
proof -
  obtain b tr0 where c: "check_internet_connection w = (b, tr0)"
    by (cases "check_internet_connection w")
  from sign_in_attempted[OF run attempted] c have c': "check_internet_connection w = (True, tr0)"
    by simp
  obtain r1 am1 tr1 where s1: "try_supabase_auth w email password am = (r1, am1, tr1)"
    by (cases "try_supabase_auth w email password am")
  from remote s1 have n1: "\<not> success r1" by simp
  let ?u = "\<lparr>u_id = Some (py_str (r_id row)), u_email = r_email row,
             u_table_name = Some ''Users'', u_created_at = r_created_at row,
             u_table_auth = True\<rparr>"
  have s2: "try_user_table_auth w email password am
              = (Success \<lparr>j_access_token = None, j_user = Val ?u,
                          j_error_description = None\<rparr> ''user_table'',
                 am\<lparr>current_user := Some ?u,
                    access_token := Some (''table_auth_'' @ py_str (r_id row))\<rparr>,
                 [UsersGet email])"
    using one_row secret nonempty
    by (simp add: try_user_table_auth_def verify_password_def falsy_def table_name_def Let_def)
  from sign_in_first_fails[OF c' s1 n1 s2] run show ?thesis by auto
qed

theorem table_lookup_signs_in_witness:
  "sign_in net_table_only ''a@b.com'' ''x'' am0
     = (table_success,
        \<lparr>current_user = Some table_user, access_token = Some ''table_auth_7''\<rparr>,
        [ProbeGet ''https://www.google.com'', TokenPost ''a@b.com'' ''x'', UsersGet ''a@b.com''])
   \<and> fst (try_supabase_auth net_table_only ''a@b.com'' ''x'' am0)
        = Failure ''Invalid login credentials''
   \<and> users_get net_table_only ''a@b.com'' = Response 200 [] (Inr [row_x])
   \<and> r_password row_x = Some ''x''
   \<and> py_str (r_id row_x) = ''7''"
proof -
  have run: "sign_in net_table_only ''a@b.com'' ''x'' am0
     = (table_success,
        \<lparr>current_user = Some table_user, access_token = Some ''table_auth_7''\<rparr>,
        [ProbeGet ''https://www.google.com'', TokenPost ''a@b.com'' ''x'', UsersGet ''a@b.com''])"
    by (simp add: run_defs net_table_only_def denial_def row_x_def table_success_def
                  table_user_def)
  have remote: "fst (try_supabase_auth net_table_only ''a@b.com'' ''x'' am0)
        = Failure ''Invalid login credentials''"
    by (simp add: run_defs net_table_only_def denial_def)
  have one_row: "users_get net_table_only ''a@b.com'' = Response 200 [] (Inr [row_x])"
    by (simp add: net_table_only_def)
  have secret: "r_password row_x = Some ''x''" by (simp add: row_x_def)
  have att: "TokenPost ''a@b.com'' ''x''
      \<in> set [ProbeGet ''https://www.google.com'', TokenPost ''a@b.com'' ''x'', UsersGet ''a@b.com'']"
    by simp
  have "access_token \<lparr>current_user = Some table_user, access_token = Some ''table_auth_7''\<rparr>
          = Some (''table_auth_'' @ py_str (r_id row_x))"
    using table_lookup_signs_in[OF run att _ one_row secret] remote by simp
  then have "py_str (r_id row_x) = ''7''" by simp
  with run remote one_row secret show ?thesis by blast
qed

subsection \<open>Errors of the HTTP layer\<close>

text \<open>
  An error of the HTTP layer inside a strategy is caught by that strategy and becomes an
  ordinary failure, so \<open>sign_in\<close> goes on to the table strategy.
\<close>

lemma sign_in_http_error_falls_through:
  assumes run: "sign_in w email password am = (r, am', tr)"
    and attempted: "TokenPost email password \<in> set tr"
    and err: "http_layer_error (token_post w email password)"
  shows "\<not> success (fst (try_supabase_auth w email password am))
         \<and> UsersGet email \<in> set tr
         \<and> r = (if success (fst (try_user_table_auth w email password am))
                then fst (try_user_table_auth w email password am)
                else Failure ''Invalid email or password'')"
proof -
  obtain b tr0 where c: "check_internet_connection w = (b, tr0)"
    by (cases "check_internet_connection w")
  from sign_in_attempted[OF run attempted] c have c': "check_internet_connection w = (True, tr0)"
    by simp
  obtain r1 am1 tr1 where s1: "try_supabase_auth w email password am = (r1, am1, tr1)"
    by (cases "try_supabase_auth w email password am")
  obtain r2 am2 tr2 where s2: "try_user_table_auth w email password am = (r2, am2, tr2)"
    by (cases "try_user_table_auth w email password am")
  from try_supabase_auth_http_error[OF err, of am] s1 have n1: "\<not> success r1" by simp
  from sign_in_first_fails[OF c' s1 n1 s2] run
  have r: "r = (if success r2 then r2 else Failure ''Invalid email or password'')"
    and tr: "tr = tr0 @ tr1 @ tr2" by simp_all
  from try_user_table_auth_requests[OF s2] tr have sent: "UsersGet email \<in> set tr" by simp
  with n1 s1 s2 r show ?thesis by simp
qed

text \<open>
  The \<open>except\<close> clause of \<open>sign_in\<close> answers \<open>Connection error: ...\<close>; no run of
  \<open>sign_in\<close> gives that answer.
\<close>

lemma sign_in_never_connection_error:
  "fst (sign_in w email password am) \<noteq> Failure (''Connection error: '' @ detail)"
proof -
  obtain b tr0 where c: "check_internet_connection w = (b, tr0)"
    by (cases "check_internet_connection w")
  obtain r1 am1 tr1 where s1: "try_supabase_auth w email password am = (r1, am1, tr1)"
    by (cases "try_supabase_auth w email password am")
  obtain r2 am2 tr2 where s2: "try_user_table_auth w email password am = (r2, am2, tr2)"
    by (cases "try_user_table_auth w email password am")
  show ?thesis
  proof (cases b)
    case False
    with c show ?thesis by (simp add: sign_in_def)
  next
    case True
    with c have c': "check_internet_connection w = (True, tr0)" by simp
    show ?thesis
    proof (cases "success r1")
      case True
      from sign_in_first_succeeds[OF c' s1 True] True show ?thesis by (cases r1) simp_all
    next
      case False
      from sign_in_first_fails[OF c' s1 False s2] show ?thesis by (cases r2) simp_all
    qed
  qed
qed

text \<open>
  Claim C4 asks that an error of the HTTP layer at a strategy makes \<open>sign_in\<close> return a
  connection error with the detail, without going on to the next strategy. \<open>sign_in\<close>
  has the clause for it (\<open>except Exception as e\<close>, returning \<open>Connection error: ...\<close>),
  and the clause is never reached: each strategy catches its own exceptions. In the first
  run the password-grant request times out, the table query is sent all the same and
  the user is signed in with a table token; in the second the table query answers 503
  after the same timeout and the caller gets \<open>Invalid email or password\<close>.
\<close>

theorem sign_in_timeout_falls_through:
  "token_post net_timeout_then_table ''a@b.com'' ''x'' = Raises ''Read timed out''
   \<and> sign_in net_timeout_then_table ''a@b.com'' ''x'' am0
       = (table_success,
          \<lparr>current_user = Some table_user, access_token = Some ''table_auth_7''\<rparr>,
          [ProbeGet ''https://www.google.com'', TokenPost ''a@b.com'' ''x'',
           UsersGet ''a@b.com''])
   \<and> token_post net_timeout_both ''a@b.com'' ''x'' = Raises ''Read timed out''
   \<and> sign_in net_timeout_both ''a@b.com'' ''x'' am0
       = (Failure ''Invalid email or password'', am0,
          [ProbeGet ''https://www.google.com'', TokenPost ''a@b.com'' ''x'',
           UsersGet ''a@b.com''])"
  by (simp add: run_defs net_timeout_then_table_def net_timeout_both_def row_x_def
                table_success_def table_user_def)


section \<open>The session file\<close>

subsection \<open>Saving and loading\<close>

lemma save_session_writable:
  "writable sm \<Longrightarrow>
     save_session now1 now2 u remember sm
       = sm\<lparr>session_file := Some (Encoded \<lparr>s_user = entry_of u, s_timestamp = Some (Iso now1),
                                          s_remember_me = Some remember,
                                          s_expires = Some (Iso (now2 + hours24))\<rparr>),
            session_data := \<lparr>s_user = entry_of u, s_timestamp = Some (Iso now1),
                             s_remember_me = Some remember,
                             s_expires = Some (Iso (now2 + hours24))\<rparr>\<rparr>"
  by (simp add: save_session_def Let_def)

lemma load_session_until_expiry:
  assumes "writable sm" "readable sm" "now \<le> now2 + hours24"
  shows "load_session now (save_session now1 now2 u remember sm)
           = (Some \<lparr>s_user = entry_of u, s_timestamp = Some (Iso now1),
                    s_remember_me = Some remember, s_expires = Some (Iso (now2 + hours24))\<rparr>,
              save_session now1 now2 u remember sm)"
  using assms by (simp add: save_session_writable load_session_def parse_expires_def)

lemma load_session_after_expiry:
  assumes "writable sm" "readable sm" "removable sm" "now > now2 + hours24"
  shows "load_session now (save_session now1 now2 u remember sm)
           = (None, sm\<lparr>session_file := None, session_data := empty_session\<rparr>)"
  using assms
  by (simp add: save_session_writable load_session_def parse_expires_def clear_session_def)

lemma is_valid_session_after_save:
  assumes "writable sm"
  shows "is_valid_session now (save_session now1 now2 u remember sm) = (now < now2 + hours24)"
  using assms
  by (simp add: save_session_writable is_valid_session_def parse_expires_def empty_session_def)

text \<open>
  Claim C6 asks that a session saved with \<open>remember = true\<close> at time \<open>T\<close> loads at
  every \<open>T' < T + 24h\<close> and that, at every \<open>T' \<ge> T + 24h\<close>, \<open>load_session\<close>
  returns \<open>None\<close> and deletes the file. The two lemmas above give the first half and
  the second half for \<open>T' > T + 24h\<close>. At \<open>T' = T + 24h\<close> the test
  \<open>datetime.now() > expires\<close> of \<open>load_session\<close> is false: the session is returned
  and the file is kept, while \<open>is_valid_session\<close>, whose test is
  \<open>datetime.now() < expires\<close>, calls the same session invalid at that instant.
\<close>

theorem load_session_at_expiry_returns_session:
  "load_session (1000 + hours24) (save_session 990 1000 (Some table_user) True sm0)
     = (Some \<lparr>s_user = Val table_user, s_timestamp = Some (Iso 990),
              s_remember_me = Some True, s_expires = Some (Iso (1000 + hours24))\<rparr>,
        save_session 990 1000 (Some table_user) True sm0)
   \<and> session_file (save_session 990 1000 (Some table_user) True sm0)
       = Some (Encoded \<lparr>s_user = Val table_user, s_timestamp = Some (Iso 990),
                        s_remember_me = Some True, s_expires = Some (Iso (1000 + hours24))\<rparr>)
   \<and> \<not> is_valid_session (1000 + hours24) (save_session 990 1000 (Some table_user) True sm0)"
  by (simp add: save_session_def load_session_def parse_expires_def is_valid_session_def
                sm0_def empty_session_def entry_of_def Let_def)

subsection \<open>Sign-in without the remember box\<close>

text \<open>
  The result of every table sign-in carries a user; the result of a sign-in at the
  identity service carries what the service sent under \<open>user\<close>.
\<close>

lemma try_user_table_auth_has_user:
  "try_user_table_auth w email password am = (Success d m, am1, tr) \<Longrightarrow> \<exists>u. j_user d = Val u"
  by (auto simp: try_user_table_auth_def Let_def
           split: http.splits sum.splits if_splits list.splits)

text \<open>
  A successful sign-in with the box unchecked, on a machine with no session file: the
  file is created.
\<close>

theorem login_without_remember_writes_file:
  "session_file sm0 = None
   \<and> handle_login_result 990 1000 table_success False sm0
       = (LoginSuccessful (Some table_user),
          sm0\<lparr>session_file := Some (Encoded \<lparr>s_user = Val table_user,
                                              s_timestamp = Some (Iso 990),
                                              s_remember_me = Some False,
                                              s_expires = Some (Iso (1000 + hours24))\<rparr>),
              session_data := \<lparr>s_user = Val table_user, s_timestamp = Some (Iso 990),
                               s_remember_me = Some False,
                               s_expires = Some (Iso (1000 + hours24))\<rparr>\<rparr>)"
  by (simp add: handle_login_result_def table_success_def save_session_def sm0_def
                entry_of_def Let_def)

lemma check_existing_session_not_remembered:
  assumes "session_file sm = Some (Encoded d)" "s_remember_me d \<noteq> Some True"
  shows "fst (check_existing_session t1 t2 sm) = NoResume"
  using assms
  by (auto simp: check_existing_session_def load_session_def Let_def
           split: option.splits prod.splits if_splits)

lemma handle_login_result_saves:
  assumes "j_user d \<noteq> Missing"
  shows "handle_login_result now1 now2 (Success d m) remember sm
           = (LoginSuccessful (entry_get (j_user d)),
              save_session now1 now2 (entry_get (j_user d)) remember sm)
         \<and> entry_of (entry_get (j_user d)) = j_user d"
  using assms by (cases "j_user d") (simp_all add: handle_login_result_def entry_of_def)

text \<open>
  Claim C3, amended. For every successful sign-in with \<open>remember = false\<close> whose result
  carries a \<open>user\<close> entry (a \<open>null\<close> one included; every table sign-in carries one),
  \<open>_handle_login_result\<close> reports the success and, when the session file can be
  written, writes the session record to it (replacing its content) with that user,
  \<open>remember_me = false\<close> and the expiry 24 hours after the clock reading;
  \<open>check_existing_session\<close> never resumes from that record.
\<close>

theorem login_without_remember_persists_session:
  assumes user: "j_user d \<noteq> Missing"
    and w: "writable sm"
  shows "handle_login_result now1 now2 (Success d m) False sm
           = (LoginSuccessful (entry_get (j_user d)),
              save_session now1 now2 (entry_get (j_user d)) False sm)
         \<and> session_file (save_session now1 now2 (entry_get (j_user d)) False sm)
             = Some (Encoded \<lparr>s_user = j_user d, s_timestamp = Some (Iso now1),
                              s_remember_me = Some False,
                              s_expires = Some (Iso (now2 + hours24))\<rparr>)
         \<and> (\<forall>t1 t2. fst (check_existing_session t1 t2
                            (save_session now1 now2 (entry_get (j_user d)) False sm))
                      = NoResume)"
proof -
  let ?sm = "save_session now1 now2 (entry_get (j_user d)) False sm"
  from handle_login_result_saves[OF user]
  have h: "handle_login_result now1 now2 (Success d m) False sm
             = (LoginSuccessful (entry_get (j_user d)), ?sm)"
    and e: "entry_of (entry_get (j_user d)) = j_user d" by simp_all
  from w e have f: "session_file ?sm
             = Some (Encoded \<lparr>s_user = j_user d, s_timestamp = Some (Iso now1),
                              s_remember_me = Some False,
                              s_expires = Some (Iso (now2 + hours24))\<rparr>)"
    by (simp add: save_session_writable)
  have "fst (check_existing_session t1 t2 ?sm) = NoResume" for t1 t2
    by (rule check_existing_session_not_remembered[OF f]) simp
  with h f show ?thesis by simp
qed

theorem login_without_remember_persists_session_witness:
  "table_success = Success \<lparr>j_access_token = None, j_user = Val table_user,
                            j_error_description = None\<rparr> ''user_table''
   \<and> writable sm0
   \<and> handle_login_result 990 1000 table_success False sm0
       = (LoginSuccessful (Some table_user), save_session 990 1000 (Some table_user) False sm0)
   \<and> session_file (save_session 990 1000 (Some table_user) False sm0)
       = Some (Encoded \<lparr>s_user = Val table_user, s_timestamp = Some (Iso 990),
                        s_remember_me = Some False, s_expires = Some (Iso (1000 + hours24))\<rparr>)
   \<and> (\<forall>t1 t2. fst (check_existing_session t1 t2
                      (save_session 990 1000 (Some table_user) False sm0))
                = NoResume)"
proof -
  let ?d = "\<lparr>j_access_token = None, j_user = Val table_user, j_error_description = None\<rparr>"
  have user: "j_user ?d \<noteq> Missing" by simp
  have w: "writable sm0" by (simp add: sm0_def)
  from login_without_remember_persists_session[OF user w, of 990 1000 "''user_table''"] w
  show ?thesis by (simp add: table_success_def)
qed


section \<open>The certificate API\<close>

subsection \<open>Authorization\<close>

lemma queries_append: "queries (tr @ tr') = queries tr @ queries tr'"
  by (induction tr rule: queries.induct) simp_all

lemma authorize_requests:
  "authorize sv authorization = (x, tr) \<Longrightarrow> queries tr = [] \<and> \<not> list_ex is_side_effect tr"
  by (auto simp: authorize_def Let_def split: option.splits if_splits sum.splits)

lemma authorize_missing_header:
  "authorize sv None = (Inl (HTTPException 401 ''Missing or invalid authorization header''), [])"
  by (simp add: authorize_def)

lemma authorize_not_bearer:
  "\<not> startswith a ''Bearer '' \<Longrightarrow>
     authorize sv (Some a) = (Inl (HTTPException 401 ''Missing or invalid authorization header''), [])"
  by (simp add: authorize_def)

lemma authorize_rejected_token:
  assumes "startswith a ''Bearer ''" "verify_user sv (str_replace ''Bearer '' [] a) = Inr None"
  shows "authorize sv (Some a)
           = (Inl (HTTPException 401 ''Invalid authentication token''),
              [VerifyUser (str_replace ''Bearer '' [] a)])"
proof -
  from assms(1) have "a \<noteq> []" by (auto simp: startswith_def)
  with assms show ?thesis by (simp add: authorize_def Let_def)
qed

lemma generate_certificate_unauthorized:
  assumes "authorize sv authorization = (Inl e, tr)"
  shows "generate_certificate ev sv details authorization
           = (HTTPError 500 ''Error generating certificate: '' e, tr)"
  using assms by (simp add: generate_certificate_def generate_certificate_try_def)

lemma generate_certificate_status:
  "reply_status (fst (generate_certificate ev sv details authorization)) \<in> {200, 500}"
  by (auto simp: generate_certificate_def split: prod.splits sum.splits)

lemma get_user_info_unauthorized:
  assumes "authorize sv authorization = (Inl e, tr)"
  shows "reply_status (fst (get_user_info sv authorization)) = 401"
  using assms by (simp add: get_user_info_def)

lemma generate_certificate_rejected_token:
  assumes "startswith a ''Bearer ''" "verify_user sv (str_replace ''Bearer '' [] a) = Inr None"
  shows "generate_certificate ev sv details (Some a)
           = (HTTPError 500 ''Error generating certificate: ''
                (HTTPException 401 ''Invalid authentication token''),
              [VerifyUser (str_replace ''Bearer '' [] a)])"
  by (rule generate_certificate_unauthorized[OF authorize_rejected_token[OF assms]])

text \<open>Unfolding a request on concrete services.\<close>

lemmas api_defs = generate_certificate_def generate_certificate_try_def authorize_def
  verify_user_def startswith_def get_my_certificates_def get_my_certificates_try_def
  get_certificates_by_device_def get_certificates_by_device_try_def select_records_def
  select_params_def get_public_url_def get_user_info_def Let_def

text \<open>
  Claim C1 asks for HTTP status 401 when the \<open>Authorization\<close> header of
  \<open>POST /generate-certificate\<close> is missing, not of Bearer shape, or carries a token
  that fails verification. The handler raises \<open>HTTPException(401)\<close> inside its
  \<open>try\<close> block and its own \<open>except Exception\<close> clause answers 500 instead; the
  status is 200 or 500 on every request (\<open>generate_certificate_status\<close>).
  \<open>get_user_info\<close>, with the same first statements, answers 401.
\<close>

theorem generate_certificate_unauthorized_gives_500:
  "generate_certificate env0 sv_reject details0 None
     = (HTTPError 500 ''Error generating certificate: ''
          (HTTPException 401 ''Missing or invalid authorization header''), [])
   \<and> generate_certificate env0 sv_reject details0 (Some ''Basic abc'')
     = (HTTPError 500 ''Error generating certificate: ''
          (HTTPException 401 ''Missing or invalid authorization header''), [])
   \<and> reply_status (fst (generate_certificate env0 sv_reject details0 (Some ''Bearer expired'')))
     = 500
   \<and> reply_status (fst (get_user_info sv_reject None)) = 401"
  by (simp add: api_defs sv_reject_def)

text \<open>
  Claim C2 asks that issuance with a token that fails verification fails with
  Unauthorized and sends no upload and no insert. The only request sent is the
  verification (\<open>generate_certificate_rejected_token\<close>, for every such token), and
  the failure reaches the caller as status 500 wrapping the 401.
\<close>

theorem generate_certificate_rejected_token_run:
  "verify_user sv_reject ''expired'' = Inr None
   \<and> generate_certificate env0 sv_reject details0 (Some ''Bearer expired'')
     = (HTTPError 500 ''Error generating certificate: ''
          (HTTPException 401 ''Invalid authentication token''),
        [VerifyUser ''expired''])
   \<and> \<not> list_ex is_side_effect [VerifyUser ''expired'']"
  by (simp add: api_defs sv_reject_def)

subsection \<open>Queries\<close>

lemma get_certificates_by_device_no_rows:
  assumes "authorize sv authorization = (Inr user_info, tr)"
    and "map_of user_info ''id'' = Some user_id"
    and "rest_get sv ''certificates''
           [(''user_id'', PStr (''eq.'' @ user_id)), (''model'', PStr (''eq.'' @ model))]
         = Response 200 txt (Inr [])"
  shows "fst (get_certificates_by_device sv model authorization)
           = HTTPError 500 ''Error retrieving device certificates: ''
               (HTTPException 404 (''No certificates found for device model: '' @ model))"
  using assms
  by (simp add: get_certificates_by_device_def get_certificates_by_device_try_def
                select_records_def select_params_def)

lemma get_my_certificates_no_rows:
  assumes "authorize sv authorization = (Inr user_info, tr)"
    and "map_of user_info ''id'' = Some user_id"
    and "rest_get sv ''certificates''
           (select_params (Some [(''user_id'', user_id)]) (Some limit) (Some offset))
         = Response 200 txt (Inr [])"
  shows "fst (get_my_certificates sv authorization limit offset)
           = Ok \<lparr>mc_user_id = user_id, mc_certificates = [], mc_count = 0\<rparr>"
  using assms
  by (simp add: get_my_certificates_def get_my_certificates_try_def select_records_def)

text \<open>
  Claim C9 asks for 404 from \<open>GET /certificates-by-device/{model}\<close> and for an empty
  list with count 0 from \<open>GET /my-certificates\<close> when no row matches. The second holds
  (\<open>get_my_certificates_no_rows\<close>); the first handler raises \<open>HTTPException(404)\<close>
  inside its \<open>try\<close> block and its \<open>except Exception\<close> clause answers 500
  (\<open>get_certificates_by_device_no_rows\<close>).
\<close>

theorem certificates_by_device_no_rows_gives_500:
  "get_certificates_by_device sv_no_rows ''T14'' (Some ''Bearer good'')
     = (HTTPError 500 ''Error retrieving device certificates: ''
          (HTTPException 404 ''No certificates found for device model: T14''),
        [VerifyUser ''good'',
         SelectRecords ''certificates''
           [(''user_id'', PStr ''eq.u1''), (''model'', PStr ''eq.T14'')]])
   \<and> get_my_certificates sv_no_rows (Some ''Bearer good'') 10 0
     = (Ok \<lparr>mc_user_id = ''u1'', mc_certificates = [], mc_count = 0\<rparr>,
        [VerifyUser ''good'',
         SelectRecords ''certificates'' [(''user_id'', PStr ''eq.u1''), (''limit'', PInt 10)]])"
  by (simp add: api_defs sv_no_rows_def user_object_def)

subsection \<open>limit and offset\<close>

lemma select_params_zero_limit:
  "select_params filters (Some 0) offset = select_params filters None offset"
  by (simp add: select_params_def)

lemma select_params_zero_offset:
  "select_params filters limit (Some 0) = select_params filters limit None"
  by (simp add: select_params_def)

lemma get_my_certificates_queries:
  "queries (snd (get_my_certificates sv authorization limit offset)) = []
   \<or> (\<exists>user_id. queries (snd (get_my_certificates sv authorization limit offset))
        = [select_params (Some [(''user_id'', user_id)]) (Some limit) (Some offset)])"
proof (cases "authorize sv authorization")
  case (Pair x tr)
  from authorize_requests[OF Pair] have q: "queries tr = []" by simp
  show ?thesis
  proof (cases x)
    case (Inl e)
    with Pair q show ?thesis
      by (simp add: get_my_certificates_def get_my_certificates_try_def)
  next
    case (Inr user_info)
    show ?thesis
    proof (cases "map_of user_info ''id''")
      case None
      with Pair Inr q show ?thesis
        by (simp add: get_my_certificates_def get_my_certificates_try_def)
    next
      case (Some user_id)
      with Pair Inr q
      have "queries (snd (get_my_certificates sv authorization limit offset))
              = [select_params (Some [(''user_id'', user_id)]) (Some limit) (Some offset)]"
        by (auto simp: get_my_certificates_def get_my_certificates_try_def select_records_def
                       queries_append split: http.splits sum.splits)
      then show ?thesis by blast
    qed
  qed
qed

text \<open>
  Claim C10. \<open>select_records\<close> with \<open>limit = 0\<close> sends the query of
  \<open>limit = None\<close>, and with \<open>offset = 0\<close> the query of \<open>offset = None\<close>; every
  query sent by \<open>GET /my-certificates\<close> with \<open>limit = 0\<close> has no \<open>limit\<close>
  parameter, and with \<open>offset = 0\<close> no \<open>offset\<close> parameter.
\<close>

theorem my_certificates_zero_limit_offset_omitted:
  "select_records sv table filters (Some 0) offset = select_records sv table filters None offset
   \<and> select_records sv table filters limit (Some 0) = select_records sv table filters limit None
   \<and> list_all (\<lambda>params. map_of params ''limit'' = None)
        (queries (snd (get_my_certificates sv authorization 0 off)))
   \<and> list_all (\<lambda>params. map_of params ''offset'' = None)
        (queries (snd (get_my_certificates sv authorization lim 0)))"
proof -
  have a: "select_records sv table filters (Some 0) offset
             = select_records sv table filters None offset"
    by (simp add: select_records_def select_params_zero_limit)
  have b: "select_records sv table filters limit (Some 0)
             = select_records sv table filters limit None"
    by (simp add: select_records_def select_params_zero_offset)
  have c: "list_all (\<lambda>params. map_of params ''limit'' = None)
        (queries (snd (get_my_certificates sv authorization 0 off)))"
    using get_my_certificates_queries[of sv authorization 0 off]
    by (auto simp: select_params_def Let_def)
  have d: "list_all (\<lambda>params. map_of params ''offset'' = None)
        (queries (snd (get_my_certificates sv authorization lim 0)))"
    using get_my_certificates_queries[of sv authorization lim 0]
    by (auto simp: select_params_def Let_def)
  from a b c d show ?thesis by simp
qed

theorem my_certificates_zero_limit_offset_omitted_witness:
  "get_my_certificates sv_two_rows (Some ''Bearer good'') 0 0
     = (Ok \<lparr>mc_user_id = ''u1'', mc_certificates = [row1, row2], mc_count = 2\<rparr>,
        [VerifyUser ''good'', SelectRecords ''certificates'' [(''user_id'', PStr ''eq.u1'')]])
   \<and> list_all (\<lambda>params. map_of params ''limit'' = None)
        (queries (snd (get_my_certificates sv_two_rows (Some ''Bearer good'') 0 0)))
   \<and> list_all (\<lambda>params. map_of params ''offset'' = None)
        (queries (snd (get_my_certificates sv_two_rows (Some ''Bearer good'') 0 0)))"
proof -
  have run: "get_my_certificates sv_two_rows (Some ''Bearer good'') 0 0
     = (Ok \<lparr>mc_user_id = ''u1'', mc_certificates = [row1, row2], mc_count = 2\<rparr>,
        [VerifyUser ''good'', SelectRecords ''certificates'' [(''user_id'', PStr ''eq.u1'')]])"
    by (simp add: api_defs sv_two_rows_def user_object_def)
  from my_certificates_zero_limit_offset_omitted[of sv_two_rows _ _ _ _ "Some ''Bearer good''" 0 0]
    run show ?thesis by blast
qed

end
